theory Spec2Isabelle
  imports Complex_Main
begin

section \<open>Values and exceptions\<close>

text \<open>
  The exception classes that the modelled code can raise. \<open>KeyboardInterrupt\<close> and
  \<open>SystemExit\<close> derive from \<open>BaseException\<close> only; every other class listed
  derives from \<open>Exception\<close>.
\<close>

datatype exn =
    ValueError | TypeError | KeyError | ZeroDivisionError | OverflowError
  | AssertionError | FileNotFoundError | PermissionError | IsADirectoryError
  | JSONDecodeError | AttributeError | SyntaxError | KeyboardInterrupt | SystemExit

fun is_Exception :: "exn \<Rightarrow> bool" where
  "is_Exception KeyboardInterrupt = False"
| "is_Exception SystemExit = False"
| "is_Exception _ = True"

text \<open>
  Python values. A float is the rational number it denotes (the non-finite floats
  are outside the model); a dict is its list of key/value pairs in insertion order.
\<close>

datatype pyval =
    PyNone
  | PyBool bool
  | PyInt int
  | PyFloat rat
  | PyStr string
  | PyList "pyval list"
  | PyDict "(pyval \<times> pyval) list"

section \<open>remove_negatives\<close>

text \<open>
  \<^verbatim>\<open>for num in numbers: if num < 0: numbers.remove(num)\<close>.
  The list iterator keeps an index into the live list: it stops as soon as the index
  reaches the current length, otherwise reads the element there and advances.
  \<open>list.remove\<close> deletes the first element equal to its argument.
\<close>

function remove_negatives_loop :: "int list \<Rightarrow> nat \<Rightarrow> int list" where
  "remove_negatives_loop numbers i =
     (if i < length numbers
      then (if numbers ! i < 0
            then remove_negatives_loop (remove1 (numbers ! i) numbers) (Suc i)
            else remove_negatives_loop numbers (Suc i))
      else numbers)"
  by pat_completeness auto
termination
  by (relation "measure (\<lambda>(numbers, i). length numbers - i)")
     (auto simp: length_remove1)

declare remove_negatives_loop.simps [simp del]

definition remove_negatives :: "int list \<Rightarrow> int list" where
  "remove_negatives numbers = remove_negatives_loop numbers 0"

text \<open>Two neighbouring elements of the list are both negative.\<close>

fun adjacent_negatives :: "int list \<Rightarrow> bool" where
  "adjacent_negatives (x # y # xs) = ((x < 0 \<and> y < 0) \<or> adjacent_negatives (y # xs))"
| "adjacent_negatives _ = False"

section \<open>set_age\<close>

text \<open>
  \<^verbatim>\<open>assert age > 0\<close>, \<^verbatim>\<open>assert age < 150\<close>, \<^verbatim>\<open>return age\<close>, on a Python int.
\<close>

definition set_age :: "int \<Rightarrow> exn + int" where
  "set_age age =
     (if \<not> age > 0 then Inl AssertionError
      else if \<not> age < 150 then Inl AssertionError
      else Inr age)"

section \<open>The builtin \<open>int\<close>\<close>

text \<open>
  \<open>int(x)\<close> on the modelled values. A string is stripped of surrounding whitespace
  (tab, line feed, vertical tab, form feed, carriage return, space), may carry one
  sign, and must then be decimal digits, single underscores allowed between digits;
  strings are ASCII here. A float is truncated towards zero. \<open>None\<close>, lists
  and dicts are rejected with \<open>TypeError\<close>, a malformed string with \<open>ValueError\<close>.
\<close>

definition is_space :: "char \<Rightarrow> bool" where
  "is_space c = (let n = (of_char c :: nat) in (9 \<le> n \<and> n \<le> 13) \<or> n = 32)"

definition is_digit :: "char \<Rightarrow> bool" where
  "is_digit c = (let n = (of_char c :: nat) in 48 \<le> n \<and> n \<le> 57)"

definition digit_value :: "char \<Rightarrow> nat" where
  "digit_value c = of_char c - 48"

definition strip :: "string \<Rightarrow> string" where
  "strip s = rev (dropWhile is_space (rev (dropWhile is_space s)))"

text \<open>
  The digit part is well formed: it ends in a digit, and an underscore only follows a
  digit. The flag says whether the previous character was a digit.
\<close>

fun digits_ok :: "bool \<Rightarrow> string \<Rightarrow> bool" where
  "digits_ok prev [] = prev"
| "digits_ok prev (c # cs) =
     (if is_digit c then digits_ok True cs
      else if c = CHR ''_'' \<and> prev then digits_ok False cs
      else False)"

definition digits_to_nat :: "string \<Rightarrow> nat" where
  "digits_to_nat cs = foldl (\<lambda>acc c. 10 * acc + digit_value c) 0 (filter is_digit cs)"

definition int_of_str :: "string \<Rightarrow> exn + int" where
  "int_of_str s =
     (let t = strip s;
          neg = (case t of c # _ \<Rightarrow> c = CHR ''-'' | [] \<Rightarrow> False);
          body = (case t of c # r \<Rightarrow> if c = CHR ''-'' \<or> c = CHR ''+'' then r else t | [] \<Rightarrow> t)
      in if digits_ok False body
         then Inr (if neg then - int (digits_to_nat body) else int (digits_to_nat body))
         else Inl ValueError)"

fun py_int :: "pyval \<Rightarrow> exn + int" where
  "py_int PyNone = Inl TypeError"
| "py_int (PyBool b) = Inr (if b then 1 else 0)"
| "py_int (PyInt n) = Inr n"
| "py_int (PyFloat r) = Inr (if 0 \<le> r then \<lfloor>r\<rfloor> else \<lceil>r\<rceil>)"
| "py_int (PyStr s) = int_of_str s"
| "py_int (PyList _) = Inl TypeError"
| "py_int (PyDict _) = Inl TypeError"

section \<open>process_data\<close>

text \<open>
  \<^verbatim>\<open>try: result = int(data) * 2; return result\<close> \<^verbatim>\<open>except: return None\<close>.
  The handler is a bare \<open>except\<close>: it takes every exception, whatever its class.
\<close>

definition process_data :: "pyval \<Rightarrow> exn + pyval" where
  "process_data data =
     (case (case py_int data of Inl e \<Rightarrow> Inl e | Inr n \<Rightarrow> Inr (n * 2)) of
        Inr result \<Rightarrow> Inr (PyInt result)
      | Inl e \<Rightarrow> Inr PyNone)"

section \<open>divide_numbers\<close>

text \<open>
  \<open>a / b\<close> on Python ints is true division: \<open>ZeroDivisionError\<close> for a zero divisor,
  otherwise the exact quotient rounded to a double, \<open>OverflowError\<close> when it is too
  large for one. The rounding \<open>rd\<close> belongs to the platform's floating point and is a
  parameter: it maps the exact quotient to the double chosen, or to \<open>None\<close> on overflow.
\<close>

definition py_truediv :: "(rat \<Rightarrow> rat option) \<Rightarrow> int \<Rightarrow> int \<Rightarrow> exn + rat" where
  "py_truediv rd a b =
     (if b = 0 then Inl ZeroDivisionError
      else case rd (of_int a / of_int b) of
             None \<Rightarrow> Inl OverflowError
           | Some q \<Rightarrow> Inr q)"

definition divide_numbers :: "(rat \<Rightarrow> rat option) \<Rightarrow> int \<Rightarrow> int \<Rightarrow> exn + rat" where
  "divide_numbers rd a b = py_truediv rd a b"

section \<open>The small pure functions\<close>

text \<open>\<^verbatim>\<open>message = message + str(item) + ", "\<close> for each item; \<open>str\<close> is the items' own.\<close>

definition build_message :: "('a \<Rightarrow> string) \<Rightarrow> 'a list \<Rightarrow> string" where
  "build_message str_of items = foldl (\<lambda>message item. message @ str_of item @ '', '') [] items"

definition CalculateTotal :: "int list \<Rightarrow> int" where
  "CalculateTotal ItemList = foldl (\<lambda>Total Item. Total + Item) 0 ItemList"

definition connect_to_database :: "string" where
  "connect_to_database =
     (let db_password = ''admin123''; db_user = ''root''
      in ''mysql://'' @ db_user @ '':'' @ db_password @ ''@localhost/mydb'')"

definition filter_even_numbers :: "int list \<Rightarrow> int list" where
  "filter_even_numbers numbers =
     foldl (\<lambda>result num. if num mod 2 = 0 then result @ [num] else result) [] numbers"

text \<open>
  \<^verbatim>\<open>value is 10\<close> compares identities; the interpreter keeps one object for each small
  int, so the test holds exactly for the int 10.
\<close>

definition check_value :: "pyval \<Rightarrow> bool" where
  "check_value v = (if v = PyInt 10 then True else False)"

fun has_positive_number :: "int list \<Rightarrow> bool" where
  "has_positive_number [] = False"
| "has_positive_number (num # numbers) = (if num > 0 then True else has_positive_number numbers)"

definition find_duplicates :: "'a list \<Rightarrow> 'a list \<Rightarrow> 'a list" where
  "find_duplicates list1 list2 =
     foldl (\<lambda>duplicates item1.
              foldl (\<lambda>duplicates item2. if item1 = item2 then duplicates @ [item1] else duplicates)
                    duplicates list2)
           [] list1"

text \<open>
  \<^verbatim>\<open>quantity * 9.99 * 0.8\<close> above 100, \<^verbatim>\<open>quantity * 9.99 * 0.9\<close> above 50, else
  \<^verbatim>\<open>quantity * 9.99\<close>. The products are float arithmetic: \<open>mul\<close> is the
  interpreter's \<open>*\<close> and \<open>lit\<close> gives the double a decimal literal denotes, both
  parameters.
\<close>

definition calculate_price ::
  "(pyval \<Rightarrow> pyval \<Rightarrow> exn + pyval) \<Rightarrow> (rat \<Rightarrow> pyval) \<Rightarrow> int \<Rightarrow> exn + pyval" where
  "calculate_price mul lit quantity =
     (if quantity > 100
      then (case mul (PyInt quantity) (lit (999 / 100)) of
              Inl e \<Rightarrow> Inl e
            | Inr p \<Rightarrow> mul p (lit (8 / 10)))
      else if quantity > 50
      then (case mul (PyInt quantity) (lit (999 / 100)) of
              Inl e \<Rightarrow> Inl e
            | Inr p \<Rightarrow> mul p (lit (9 / 10)))
      else mul (PyInt quantity) (lit (999 / 100)))"

section \<open>Lookups and comparisons on values\<close>

definition dict_get :: "pyval \<Rightarrow> pyval \<Rightarrow> exn + pyval" where
  "dict_get d k =
     (case d of
        PyDict kvs \<Rightarrow> (case map_of kvs k of None \<Rightarrow> Inl KeyError | Some v \<Rightarrow> Inr v)
      | _ \<Rightarrow> Inl TypeError)"

text \<open>\<open>v < n\<close> for an int \<open>n\<close>: defined on numbers, \<open>TypeError\<close> elsewhere.\<close>

fun py_lt_int :: "pyval \<Rightarrow> int \<Rightarrow> exn + bool" where
  "py_lt_int (PyInt m) n = Inr (m < n)"
| "py_lt_int (PyBool b) n = Inr ((if b then 1 else 0) < n)"
| "py_lt_int (PyFloat r) n = Inr (r < of_int n)"
| "py_lt_int _ n = Inl TypeError"

section \<open>remove_negatives on a list object\<close>

text \<open>
  The caller's list is an object that \<open>remove_negatives\<close> changes in place, and its
  elements are any values. \<open>num < 0\<close> raises \<open>TypeError\<close> on a value that is no number,
  and the loop then stops with the list as far as it had changed it.
  \<open>numbers.remove(num)\<close>, for a number \<open>num\<close>, deletes the first element that equals
  it, which is the first with the same numeric value (\<open>-1 == -1.0\<close>).
\<close>

fun py_num :: "pyval \<Rightarrow> rat option" where
  "py_num (PyBool b) = Some (if b then 1 else 0)"
| "py_num (PyInt n) = Some (of_int n)"
| "py_num (PyFloat r) = Some r"
| "py_num _ = None"

definition list_remove :: "pyval \<Rightarrow> pyval list \<Rightarrow> exn + pyval list" where
  "list_remove num numbers =
     (case find (\<lambda>x. py_num num \<noteq> None \<and> py_num x = py_num num) numbers of
        None \<Rightarrow> Inl ValueError
      | Some y \<Rightarrow> Inr (remove1 y numbers))"

text \<open>
  The same loop as \<open>remove_negatives_loop\<close>, on values: the exception that ended it,
  if any, and the content the list object is left with.
\<close>

function remove_negatives_in_place :: "pyval list \<Rightarrow> nat \<Rightarrow> exn option \<times> pyval list" where
  "remove_negatives_in_place numbers i =
     (if i < length numbers
      then (case py_lt_int (numbers ! i) 0 of
              Inl e \<Rightarrow> (Some e, numbers)
            | Inr negative \<Rightarrow>
                if negative
                then (case list_remove (numbers ! i) numbers of
                        Inl e \<Rightarrow> (Some e, numbers)
                      | Inr rest \<Rightarrow> remove_negatives_in_place rest (Suc i))
                else remove_negatives_in_place numbers (Suc i))
      else (None, numbers))"
  by pat_completeness auto
termination
  by (relation "measure (\<lambda>(numbers, i). length numbers - i)")
     (auto simp: list_remove_def length_remove1 split: option.splits)

declare remove_negatives_in_place.simps [simp del]

section \<open>UserManager\<close>

definition get_user :: "pyval \<Rightarrow> pyval" where
  "get_user user_id =
     PyDict [(PyStr ''id'', user_id), (PyStr ''age'', PyInt 25),
             (PyStr ''email'', PyStr ''user@example.com'')]"

definition send_email :: "pyval \<Rightarrow> pyval \<Rightarrow> pyval" where
  "send_email email message = PyNone"

definition log_action :: "pyval \<Rightarrow> pyval \<Rightarrow> pyval" where
  "log_action user_id action = PyNone"

definition update_cache :: "pyval \<Rightarrow> pyval \<Rightarrow> pyval" where
  "update_cache user_id user = PyNone"

definition process_user :: "pyval \<Rightarrow> exn + pyval" where
  "process_user user_id =
     (let user = get_user user_id in
      case dict_get user (PyStr ''age'') of
        Inl e \<Rightarrow> Inl e
      | Inr age \<Rightarrow>
          (case py_lt_int age 18 of
             Inl e \<Rightarrow> Inl e
           | Inr young \<Rightarrow>
               if young then Inl ValueError
               else (case dict_get user (PyStr ''email'') of
                       Inl e \<Rightarrow> Inl e
                     | Inr email \<Rightarrow>
                         (let u1 = send_email email (PyStr ''Welcome!'');
                              u2 = log_action user_id (PyStr ''processed'');
                              u3 = update_cache user_id user
                          in Inr user))))"

section \<open>The state of the process\<close>

text \<open>
  What the functions of the module can reach besides their arguments: the two globals
  of the module, the list objects (an object's identity mapped to its current
  content), the file system, the working directory, the command line, the
  environment variables, the processor time, the table of file objects, and what has
  been printed.
\<close>

datatype fentry = File bool bool string | Directory

datatype fmode = ReadMode | WriteMode

record handle =
  h_path :: string
  h_mode :: fmode
  h_pos :: nat
  h_closed :: bool

datatype out_event = Print pyval | PrintError exn

record mstate =
  user_data :: "(pyval \<times> pyval) list"
  counter :: int
  list_objs :: "nat \<Rightarrow> pyval list"
  files :: "string \<Rightarrow> fentry option"
  creatable :: "string \<Rightarrow> bool"
  cwd :: string
  argv :: "string list"
  environ :: "string \<Rightarrow> string option"
  cpu_time :: rat
  handles :: "nat \<Rightarrow> handle option"
  next_handle :: nat
  stdout :: "out_event list"

text \<open>\<open>print(v)\<close> appends to the output; the line written is \<open>str(v)\<close>.\<close>

definition py_print :: "pyval \<Rightarrow> mstate \<Rightarrow> mstate" where
  "py_print v s = s\<lparr>stdout := stdout s @ [Print v]\<rparr>"

subsection \<open>File objects\<close>

definition new_handle :: "string \<Rightarrow> fmode \<Rightarrow> mstate \<Rightarrow> (exn + nat) \<times> mstate" where
  "new_handle path mode s =
     (Inr (next_handle s),
      s\<lparr>handles := (handles s)(next_handle s \<mapsto>
             \<lparr>h_path = path, h_mode = mode, h_pos = 0, h_closed = False\<rparr>),
        next_handle := Suc (next_handle s)\<rparr>)"

text \<open>
  \<open>open(path, mode)\<close>. Reading needs an existing, readable regular file. Writing
  truncates an existing writable file, and creates a missing one where the directory
  allows it (\<open>creatable\<close>). A failed \<open>open\<close> makes no file object.
\<close>

definition open_file :: "string \<Rightarrow> fmode \<Rightarrow> mstate \<Rightarrow> (exn + nat) \<times> mstate" where
  "open_file path mode s =
     (case mode of
        ReadMode \<Rightarrow>
          (case files s path of
             None \<Rightarrow> (Inl FileNotFoundError, s)
           | Some Directory \<Rightarrow> (Inl IsADirectoryError, s)
           | Some (File r w c) \<Rightarrow>
               if r then new_handle path ReadMode s else (Inl PermissionError, s))
      | WriteMode \<Rightarrow>
          (case files s path of
             None \<Rightarrow>
               if creatable s path
               then new_handle path WriteMode (s\<lparr>files := (files s)(path \<mapsto> File True True [])\<rparr>)
               else (Inl FileNotFoundError, s)
           | Some Directory \<Rightarrow> (Inl IsADirectoryError, s)
           | Some (File r w c) \<Rightarrow>
               if w
               then new_handle path WriteMode (s\<lparr>files := (files s)(path \<mapsto> File r w [])\<rparr>)
               else (Inl PermissionError, s)))"

definition file_content :: "mstate \<Rightarrow> string \<Rightarrow> string" where
  "file_content s path = (case files s path of Some (File r w c) \<Rightarrow> c | _ \<Rightarrow> [])"

text \<open>\<open>f.read()\<close>: everything from the current position; the position moves to the end.\<close>

definition file_read :: "nat \<Rightarrow> mstate \<Rightarrow> (exn + string) \<times> mstate" where
  "file_read f s =
     (case handles s f of
        None \<Rightarrow> (Inl ValueError, s)
      | Some h \<Rightarrow>
          if h_closed h \<or> h_mode h \<noteq> ReadMode then (Inl ValueError, s)
          else (let c = file_content s (h_path h)
                in (Inr (drop (h_pos h) c),
                    s\<lparr>handles := (handles s)(f \<mapsto> h\<lparr>h_pos := max (h_pos h) (length c)\<rparr>)\<rparr>)))"

text \<open>\<open>f.write(text)\<close>: the text goes in at the current position, which moves past it.\<close>

definition file_write :: "nat \<Rightarrow> string \<Rightarrow> mstate \<Rightarrow> (exn + unit) \<times> mstate" where
  "file_write f text s =
     (case handles s f of
        None \<Rightarrow> (Inl ValueError, s)
      | Some h \<Rightarrow>
          if h_closed h \<or> h_mode h \<noteq> WriteMode then (Inl ValueError, s)
          else (case files s (h_path h) of
                  Some (File r w c) \<Rightarrow>
                    (Inr (),
                     s\<lparr>files := (files s)(h_path h \<mapsto>
                            File r w (take (h_pos h) c @ text @ drop (h_pos h + length text) c)),
                       handles := (handles s)(f \<mapsto> h\<lparr>h_pos := h_pos h + length text\<rparr>)\<rparr>)
                | _ \<Rightarrow> (Inl ValueError, s)))"

text \<open>\<open>f.close()\<close>; closing a closed file object does nothing.\<close>

definition file_close :: "nat \<Rightarrow> mstate \<Rightarrow> mstate" where
  "file_close f s =
     (case handles s f of
        None \<Rightarrow> s
      | Some h \<Rightarrow> s\<lparr>handles := (handles s)(f \<mapsto> h\<lparr>h_closed := True\<rparr>)\<rparr>)"

section \<open>The functions that use files\<close>

text \<open>\<^verbatim>\<open>file = open(filename, "r"); content = file.read(); return content\<close>\<close>

definition read_file :: "string \<Rightarrow> mstate \<Rightarrow> (exn + string) \<times> mstate" where
  "read_file filename s =
     (case open_file filename ReadMode s of
        (Inl e, s1) \<Rightarrow> (Inl e, s1)
      | (Inr file, s1) \<Rightarrow> file_read file s1)"

text \<open>
  \<^verbatim>\<open>f = open(filename, "w"); f.write(json.dumps(config)); f.close()\<close>.
  \<open>json.dumps\<close> is the library's and a parameter.
\<close>

definition write_config ::
  "(pyval \<Rightarrow> exn + string) \<Rightarrow> string \<Rightarrow> pyval \<Rightarrow> mstate \<Rightarrow> (exn + pyval) \<times> mstate" where
  "write_config dumps filename config s =
     (case open_file filename WriteMode s of
        (Inl e, s1) \<Rightarrow> (Inl e, s1)
      | (Inr f, s1) \<Rightarrow>
          (case dumps config of
             Inl e \<Rightarrow> (Inl e, s1)
           | Inr text \<Rightarrow>
               (case file_write f text s1 of
                  (Inl e, s2) \<Rightarrow> (Inl e, s2)
                | (Inr u, s2) \<Rightarrow> (Inr PyNone, file_close f s2))))"

text \<open>
  \<^verbatim>\<open>src = open(source, "rb"); dst = open(destination, "wb")\<close>,
  \<^verbatim>\<open>dst.write(src.read()); src.close(); dst.close()\<close>
\<close>

definition copy_file :: "string \<Rightarrow> string \<Rightarrow> mstate \<Rightarrow> (exn + pyval) \<times> mstate" where
  "copy_file source destination s =
     (case open_file source ReadMode s of
        (Inl e, s1) \<Rightarrow> (Inl e, s1)
      | (Inr src, s1) \<Rightarrow>
          (case open_file destination WriteMode s1 of
             (Inl e, s2) \<Rightarrow> (Inl e, s2)
           | (Inr dst, s2) \<Rightarrow>
               (case file_read src s2 of
                  (Inl e, s3) \<Rightarrow> (Inl e, s3)
                | (Inr data, s3) \<Rightarrow>
                    (case file_write dst data s3 of
                       (Inl e, s4) \<Rightarrow> (Inl e, s4)
                     | (Inr u, s4) \<Rightarrow> (Inr PyNone, file_close dst (file_close src s4))))))"

text \<open>\<open>json.load(f)\<close> reads the whole file object and parses the text with the library.\<close>

definition json_load ::
  "(string \<Rightarrow> exn + pyval) \<Rightarrow> nat \<Rightarrow> mstate \<Rightarrow> (exn + pyval) \<times> mstate" where
  "json_load loads f s =
     (case file_read f s of
        (Inl e, s1) \<Rightarrow> (Inl e, s1)
      | (Inr text, s1) \<Rightarrow> (loads text, s1))"

text \<open>
  \<^verbatim>\<open>try: with open(filename) as f: return json.load(f)\<close>
  \<^verbatim>\<open>except Exception as e: print(f"Error: {e}"); return {}\<close>.
  Leaving the \<open>with\<close> block closes the file object, on return and on an exception
  alike. The handler takes the classes that derive from \<open>Exception\<close>.
\<close>

definition load_json ::
  "(string \<Rightarrow> exn + pyval) \<Rightarrow> string \<Rightarrow> mstate \<Rightarrow> (exn + pyval) \<times> mstate" where
  "load_json loads filename s =
     (case (case open_file filename ReadMode s of
              (Inl e, s1) \<Rightarrow> (Inl e, s1)
            | (Inr f, s1) \<Rightarrow>
                (case json_load loads f s1 of (r, s2) \<Rightarrow> (r, file_close f s2))) of
        (Inr v, s3) \<Rightarrow> (Inr v, s3)
      | (Inl e, s3) \<Rightarrow>
          if is_Exception e
          then (Inr (PyDict []), s3\<lparr>stdout := stdout s3 @ [PrintError e]\<rparr>)
          else (Inl e, s3))"

text \<open>\<^verbatim>\<open>os.getcwd() + "/config/" + "settings.json"\<close>\<close>

definition get_config_path :: "mstate \<Rightarrow> string" where
  "get_config_path s = cwd s @ ''/config/'' @ ''settings.json''"

section \<open>add_item\<close>

text \<open>
  \<^verbatim>\<open>def add_item(item, items=[]): items.append(item); return items\<close>.
  The default list is one object, made when the \<open>def\<close> statement runs; a call that
  omits \<open>items\<close> (\<open>None\<close> below) works on that object. The call returns the object it
  appended to.
\<close>

definition add_item_default :: nat where
  "add_item_default = 0"

definition add_item :: "pyval \<Rightarrow> nat option \<Rightarrow> mstate \<Rightarrow> nat \<times> mstate" where
  "add_item item items s =
     (let obj = (case items of None \<Rightarrow> add_item_default | Some a \<Rightarrow> a)
      in (obj, s\<lparr>list_objs := (list_objs s)(obj := list_objs s obj @ [item])\<rparr>))"

text \<open>
  A run of calls that all omit \<open>items\<close>; for each call, the content of the list it
  returned, as it was when the call returned.
\<close>

fun add_item_calls :: "pyval list \<Rightarrow> mstate \<Rightarrow> pyval list list \<times> mstate" where
  "add_item_calls [] s = ([], s)"
| "add_item_calls (item # rest) s =
     (case add_item item None s of
        (obj, s1) \<Rightarrow>
          (case add_item_calls rest s1 of
             (results, s2) \<Rightarrow> (list_objs s1 obj # results, s2)))"

section \<open>Running the module\<close>

text \<open>
  The statements at the top level of the file: the two globals are bound, and the
  \<open>def\<close> of \<open>add_item\<close> makes its default list. The imports and the other definitions
  change nothing that is modelled.
\<close>

definition module_init :: "mstate \<Rightarrow> mstate" where
  "module_init s =
     s\<lparr>user_data := [], counter := 0,
       list_objs := (list_objs s)(add_item_default := [])\<rparr>"

text \<open>
  \<^verbatim>\<open>print("Running script..."); data = process_data("123"); print(data)\<close>.
  An exception escaping \<open>process_data\<close> would end the script before the second print.
\<close>

definition main_block :: "mstate \<Rightarrow> mstate" where
  "main_block s =
     (let s1 = py_print (PyStr ''Running script...'') s
      in case process_data (PyStr ''123'') of
           Inl e \<Rightarrow> s1
         | Inr data \<Rightarrow> py_print data s1)"

text \<open>The whole file, run under the module name \<open>name\<close>.\<close>

definition run_module :: "string \<Rightarrow> mstate \<Rightarrow> mstate" where
  "run_module name s =
     (let s1 = module_init s
      in if name = ''__main__'' then main_block s1 else s1)"

section \<open>Calling the functions of the module\<close>

text \<open>
  The library functions the module calls and that are not modelled further: the JSON
  encoder and decoder, the rounding of a quotient to a double, \<open>str\<close>, \<open>eval\<close>, the
  product \<open>*\<close> on numbers, the double a decimal literal denotes, and \<open>time.clock\<close>
  (the float it returns at a given processor time, or the \<open>AttributeError\<close> of an
  interpreter that no longer has it).
\<close>

record pylib =
  json_dumps :: "pyval \<Rightarrow> exn + string"
  json_loads :: "string \<Rightarrow> exn + pyval"
  round_double :: "rat \<Rightarrow> rat option"
  str_of :: "pyval \<Rightarrow> string"
  py_eval :: "string \<Rightarrow> mstate \<Rightarrow> (exn + pyval) \<times> mstate"
  py_mul :: "pyval \<Rightarrow> pyval \<Rightarrow> exn + pyval"
  float_literal :: "rat \<Rightarrow> pyval"
  time_clock :: "rat \<Rightarrow> exn + rat"

text \<open>
  \<^verbatim>\<open>return eval(expression)\<close>. The expression is evaluated in the module's
  namespace and may read and change whatever it names there: the globals, the list
  objects, the file system, the output. The file objects of calls that have returned
  are not among the things it can name, so the table of file objects is as before.
\<close>

definition calculate ::
  "(string \<Rightarrow> mstate \<Rightarrow> (exn + pyval) \<times> mstate) \<Rightarrow> string \<Rightarrow> mstate
     \<Rightarrow> (exn + pyval) \<times> mstate" where
  "calculate eval expression s =
     (case eval expression s of
        (r, s1) \<Rightarrow> (r, s1\<lparr>handles := handles s, next_handle := next_handle s\<rparr>))"

text \<open>\<^verbatim>\<open>import time; return time.clock()\<close>\<close>

definition get_current_time :: "(rat \<Rightarrow> exn + rat) \<Rightarrow> mstate \<Rightarrow> exn + rat" where
  "get_current_time clock s = clock (cpu_time s)"

text \<open>
  One call of a function of the module, with its arguments. A list that the function
  changes (\<open>add_item\<close>, \<open>remove_negatives\<close>) is given as the list object; a list that
  is only read is given by its content.
\<close>

datatype call =
    Add_item pyval "nat option"
  | Read_file string
  | Process_data pyval
  | Write_config string pyval
  | Build_message "pyval list"
  | Calculate_total "int list"
  | Connect_to_database
  | Filter_even_numbers "int list"
  | Remove_negatives nat
  | Check_value pyval
  | Divide_numbers int int
  | Has_positive_number "int list"
  | Copy_file string string
  | Load_json string
  | Process_user pyval
  | Get_user pyval
  | Send_email pyval pyval
  | Log_action pyval pyval
  | Update_cache pyval pyval
  | Set_age int
  | Get_config_path
  | Find_duplicates "int list" "int list"
  | Calculate string
  | Calculate_price int
  | Get_current_time

definition int_list :: "int list \<Rightarrow> pyval" where
  "int_list xs = PyList (map PyInt xs)"

definition map_result :: "('a \<Rightarrow> pyval) \<Rightarrow> exn + 'a \<Rightarrow> exn + pyval" where
  "map_result f r = (case r of Inl e \<Rightarrow> Inl e | Inr v \<Rightarrow> Inr (f v))"

text \<open>
  The result of the call, as a value or as the exception that leaves the function,
  and the state after it. For \<open>add_item\<close> and \<open>remove_negatives\<close>, which return the
  list object they were given, the result shown is the content of that object at the
  moment of the return.
\<close>

fun run :: "pylib \<Rightarrow> call \<Rightarrow> mstate \<Rightarrow> (exn + pyval) \<times> mstate" where
  "run lib (Add_item item items) s =
     (case add_item item items s of (obj, s1) \<Rightarrow> (Inr (PyList (list_objs s1 obj)), s1))"
| "run lib (Read_file filename) s =
     (case read_file filename s of (r, s1) \<Rightarrow> (map_result PyStr r, s1))"
| "run lib (Process_data data) s = (process_data data, s)"
| "run lib (Write_config filename config) s = write_config (json_dumps lib) filename config s"
| "run lib (Build_message items) s = (Inr (PyStr (build_message (str_of lib) items)), s)"
| "run lib (Calculate_total ItemList) s = (Inr (PyInt (CalculateTotal ItemList)), s)"
| "run lib Connect_to_database s = (Inr (PyStr connect_to_database), s)"
| "run lib (Filter_even_numbers numbers) s = (Inr (int_list (filter_even_numbers numbers)), s)"
| "run lib (Remove_negatives obj) s =
     (case remove_negatives_in_place (list_objs s obj) 0 of
        (raised, numbers) \<Rightarrow>
          (case raised of None \<Rightarrow> Inr (PyList numbers) | Some e \<Rightarrow> Inl e,
           s\<lparr>list_objs := (list_objs s)(obj := numbers)\<rparr>))"
| "run lib (Check_value v) s = (Inr (PyBool (check_value v)), s)"
| "run lib (Divide_numbers a b) s = (map_result PyFloat (divide_numbers (round_double lib) a b), s)"
| "run lib (Has_positive_number numbers) s = (Inr (PyBool (has_positive_number numbers)), s)"
| "run lib (Copy_file source destination) s = copy_file source destination s"
| "run lib (Load_json filename) s = load_json (json_loads lib) filename s"
| "run lib (Process_user user_id) s = (process_user user_id, s)"
| "run lib (Get_user user_id) s = (Inr (get_user user_id), s)"
| "run lib (Send_email email message) s = (Inr (send_email email message), s)"
| "run lib (Log_action user_id action) s = (Inr (log_action user_id action), s)"
| "run lib (Update_cache user_id user) s = (Inr (update_cache user_id user), s)"
| "run lib (Set_age age) s = (map_result PyInt (set_age age), s)"
| "run lib Get_config_path s = (Inr (PyStr (get_config_path s)), s)"
| "run lib (Find_duplicates list1 list2) s = (Inr (int_list (find_duplicates list1 list2)), s)"
| "run lib (Calculate expression) s = calculate (py_eval lib) expression s"
| "run lib (Calculate_price quantity) s =
     (calculate_price (py_mul lib) (float_literal lib) quantity, s)"
| "run lib Get_current_time s = (map_result PyFloat (get_current_time (time_clock lib) s), s)"

text \<open>The methods of the class \<open>UserManager\<close>, and the method a call invokes.\<close>

datatype um_method = M_process_user | M_get_user | M_send_email | M_log_action | M_update_cache

fun method_of :: "call \<Rightarrow> um_method option" where
  "method_of (Process_user user_id) = Some M_process_user"
| "method_of (Get_user user_id) = Some M_get_user"
| "method_of (Send_email email message) = Some M_send_email"
| "method_of (Log_action user_id action) = Some M_log_action"
| "method_of (Update_cache user_id user) = Some M_update_cache"
| "method_of _ = None"





subsection \<open>A concrete library and a concrete state\<close>

definition demo_lib :: pylib where
  "demo_lib =
     \<lparr>json_dumps = (\<lambda>v. if v = PyDict [] then Inr ''{}'' else Inl TypeError),
      json_loads = (\<lambda>t. if t = ''{}'' then Inr (PyDict []) else Inl JSONDecodeError),
      round_double = (\<lambda>q. Some q),
      str_of = (\<lambda>v. case v of PyStr t \<Rightarrow> t | _ \<Rightarrow> ''?''),
      py_eval = (\<lambda>expression s.
        if expression = ''add_item.__defaults__[0]''
        then (Inr (PyList (list_objs s add_item_default)), s)
        else (Inl SyntaxError, s)),
      py_mul = (\<lambda>v w. case (py_num v, py_num w) of
                         (Some a, Some b) \<Rightarrow> Inr (PyFloat (a * b))
                       | _ \<Rightarrow> Inl TypeError),
      float_literal = PyFloat,
      time_clock = (\<lambda>t. Inl AttributeError)\<rparr>"

definition demo_state :: mstate where
  "demo_state =
     \<lparr>user_data = [], counter = 0, list_objs = (\<lambda>obj. []),
      files = [''a.json'' \<mapsto> File True True ''{}'', ''bad.json'' \<mapsto> File True True ''{'',
               ''secret'' \<mapsto> File False False ''x''],
      creatable = (\<lambda>path. True), cwd = ''/srv'', argv = [], environ = Map.empty,
      cpu_time = 0, handles = Map.empty, next_handle = 0, stdout = []\<rparr>"

section \<open>Properties of remove_negatives\<close>

lemma remove_negatives_pair: "remove_negatives [- 1, - 2] = [- 2]"
  by code_simp

text \<open>
  The loop invariant: the part of the list already passed holds no negative number,
  and the part still ahead has no two negatives side by side. Then the loop leaves the
  passed part as it is and keeps of the rest exactly the non-negative elements.
\<close>

lemma remove_negatives_loop_filter:
  "length pre = i \<Longrightarrow> \<forall>x\<in>set pre. 0 \<le> x \<Longrightarrow> \<not> adjacent_negatives suf \<Longrightarrow>
   remove_negatives_loop (pre @ suf) i = pre @ filter (\<lambda>x. 0 \<le> x) suf"
proof (induction suf arbitrary: pre i rule: length_induct)
  case (1 suf)
  show ?case
  proof (cases suf)
    case Nil
    with 1(2) show ?thesis by (simp add: remove_negatives_loop.simps)
  next
    case (Cons x rest)
    show ?thesis
    proof (cases "x < 0")
      case False
      have "remove_negatives_loop ((pre @ [x]) @ rest) (Suc i) =
              (pre @ [x]) @ filter (\<lambda>x. 0 \<le> x) rest"
        using 1 Cons False by (intro 1(1)[rule_format]) (auto elim: adjacent_negatives.elims)
      with 1(2) Cons False show ?thesis
        by (subst remove_negatives_loop.simps) (simp add: nth_append)
    next
      case True
      have notin: "x \<notin> set pre" using True 1(3) by auto
      have rm: "remove1 x (pre @ x # rest) = pre @ rest"
        using notin by (simp add: remove1_append)
      show ?thesis
      proof (cases rest)
        case Nil
        with 1(2) Cons True rm show ?thesis
          by (subst remove_negatives_loop.simps) (simp add: nth_append remove_negatives_loop.simps)
      next
        case (Cons y rest')
        have y: "0 \<le> y" and na: "\<not> adjacent_negatives rest'"
          using 1(4) \<open>suf = x # rest\<close> Cons True by (auto elim: adjacent_negatives.elims)
        have "remove_negatives_loop ((pre @ [y]) @ rest') (Suc i) =
                (pre @ [y]) @ filter (\<lambda>x. 0 \<le> x) rest'"
          using 1(2,3) y na \<open>suf = x # rest\<close> Cons by (intro 1(1)[rule_format]) auto
        with 1(2) \<open>suf = x # rest\<close> Cons True rm y show ?thesis
          by (subst remove_negatives_loop.simps) (simp add: nth_append)
      qed
    qed
  qed
qed

lemma remove_negatives_filter:
  "\<not> adjacent_negatives numbers \<Longrightarrow> remove_negatives numbers = filter (\<lambda>x. 0 \<le> x) numbers"
  unfolding remove_negatives_def using remove_negatives_loop_filter [of "[]" 0 numbers] by simp

text \<open>
  Claim C9. \<open>remove_negatives\<close> does not remove every negative number of every input:
  the list it returns for \<open>[-1, -2]\<close> still holds a negative number. For a list in which
  no two negatives are adjacent, all negatives are removed and nothing else is: the
  result is the list of the non-negative elements, in their order.
\<close>

theorem remove_negatives_skips_neighbour:
  "(\<exists>x \<in> set (remove_negatives [- 1, - 2]). x < 0) \<and>
   (\<forall>numbers. \<not> adjacent_negatives numbers \<longrightarrow>
      remove_negatives numbers = filter (\<lambda>x. 0 \<le> x) numbers)"
  by (simp add: remove_negatives_pair remove_negatives_filter)

theorem remove_negatives_skips_neighbour_witness:
  "adjacent_negatives [- 1, 3, - 1, 4] = False \<and>
   remove_negatives [- 1, 3, - 1, 4] = [3, 4]"
proof -
  have na: "\<not> adjacent_negatives [- 1, 3, - 1, 4]" by simp
  have "remove_negatives [- 1, 3, - 1, 4] = filter (\<lambda>x. 0 \<le> x) [- 1, 3, - 1, 4]"
    using remove_negatives_skips_neighbour na by blast
  with na show ?thesis by simp
qed

text \<open>
  On a list object that holds ints, the loop on values does what the loop on ints
  does, and raises nothing.
\<close>

lemma remove1_map_PyInt: "remove1 (PyInt n) (map PyInt xs) = map PyInt (remove1 n xs)"
  by (induction xs) auto

lemma find_map_PyInt:
  "n \<in> set xs \<Longrightarrow>
   find (\<lambda>x. py_num (PyInt n) \<noteq> None \<and> py_num x = py_num (PyInt n)) (map PyInt xs)
     = Some (PyInt n)"
  by (induction xs) auto

lemma list_remove_ints:
  "n \<in> set xs \<Longrightarrow> list_remove (PyInt n) (map PyInt xs) = Inr (map PyInt (remove1 n xs))"
  using find_map_PyInt [of n xs] by (simp add: list_remove_def remove1_map_PyInt)

lemma remove_negatives_in_place_ints:
  "remove_negatives_in_place (map PyInt numbers) i
     = (None, map PyInt (remove_negatives_loop numbers i))"
proof (induction numbers i rule: remove_negatives_loop.induct)
  case (1 numbers i)
  show ?case
  proof (cases "i < length numbers")
    case False
    then show ?thesis
      by (simp add: remove_negatives_in_place.simps remove_negatives_loop.simps)
  next
    case True
    show ?thesis
    proof (cases "numbers ! i < 0")
      case neg: True
      have "list_remove (PyInt (numbers ! i)) (map PyInt numbers)
              = Inr (map PyInt (remove1 (numbers ! i) numbers))"
        using True by (simp add: list_remove_ints)
      with True neg "1.IH"(1) show ?thesis
        by (subst remove_negatives_in_place.simps, subst remove_negatives_loop.simps) simp
    next
      case nonneg: False
      with True "1.IH"(2) show ?thesis
        by (subst remove_negatives_in_place.simps, subst remove_negatives_loop.simps) simp
    qed
  qed
qed

lemma run_remove_negatives_ints:
  "list_objs s obj = map PyInt numbers \<Longrightarrow>
   run lib (Remove_negatives obj) s =
     (Inr (int_list (remove_negatives numbers)),
      s\<lparr>list_objs := (list_objs s)(obj := map PyInt (remove_negatives numbers))\<rparr>)"
  by (simp add: remove_negatives_in_place_ints remove_negatives_def int_list_def)

section \<open>Properties of set_age\<close>

text \<open>
  Claim C5. For every age, \<open>set_age\<close> raises \<open>AssertionError\<close> if and only if
  \<open>age \<le> 0\<close> or \<open>age \<ge> 150\<close>, and otherwise returns its argument unchanged.
\<close>

theorem set_age_assertions:
  "(set_age age = Inl AssertionError \<longleftrightarrow> age \<le> 0 \<or> age \<ge> 150) \<and>
   (\<not> (age \<le> 0 \<or> age \<ge> 150) \<longrightarrow> set_age age = Inr age)"
  by (simp add: set_age_def)

theorem set_age_assertions_witness:
  "set_age 30 = Inr 30 \<and> set_age 0 = Inl AssertionError \<and> set_age 150 = Inl AssertionError"
  using set_age_assertions [of 30] set_age_assertions [of 0] set_age_assertions [of 150]
  by simp

section \<open>Properties of divide_numbers\<close>

text \<open>
  Claim C10. \<open>divide_numbers\<close> checks nothing: for every \<open>a\<close> and every \<open>b \<noteq> 0\<close> its
  result is that of the true division \<open>a / b\<close> (the quotient as a double, or the
  division's own \<open>OverflowError\<close>), and for every \<open>a\<close> it raises \<open>ZeroDivisionError\<close>
  when \<open>b = 0\<close>.
\<close>

theorem divide_numbers_unchecked:
  "(b \<noteq> 0 \<longrightarrow>
      divide_numbers rd a b =
        (case rd (of_int a / of_int b) of None \<Rightarrow> Inl OverflowError | Some q \<Rightarrow> Inr q)) \<and>
   divide_numbers rd a 0 = Inl ZeroDivisionError"
  by (simp add: divide_numbers_def py_truediv_def)

theorem divide_numbers_unchecked_witness:
  "divide_numbers Some 1 2 = Inr (1 / 2) \<and> divide_numbers Some 1 0 = Inl ZeroDivisionError"
  using divide_numbers_unchecked [of 2 Some 1] by simp

section \<open>Properties of process_data\<close>

lemma py_int_123: "py_int (PyStr ''123'') = Inr 123"
  by code_simp

lemma process_data_123: "process_data (PyStr ''123'') = Inr (PyInt 246)"
  using py_int_123 by (simp add: process_data_def)

text \<open>
  Claim C4. \<open>process_data\<close> never lets an exception out: for every input it returns a
  value. If \<open>int(data)\<close> succeeds with \<open>n\<close> it returns \<open>2 * n\<close>, and if the conversion
  raises, whatever the exception, it returns \<open>None\<close>.
\<close>

theorem process_data_total:
  "(\<exists>v. process_data data = Inr v) \<and>
   (\<forall>n. py_int data = Inr n \<longrightarrow> process_data data = Inr (PyInt (2 * n))) \<and>
   (\<forall>e. py_int data = Inl e \<longrightarrow> process_data data = Inr PyNone)"
  by (cases "py_int data") (simp_all add: process_data_def)

theorem process_data_total_witness:
  "process_data (PyStr ''21'') = Inr (PyInt 42) \<and> process_data (PyStr ''x'') = Inr PyNone
   \<and> process_data PyNone = Inr PyNone"
proof -
  have a: "py_int (PyStr ''21'') = Inr 21" by code_simp
  have b: "py_int (PyStr ''x'') = Inl ValueError" by code_simp
  have c: "py_int PyNone = Inl TypeError" by simp
  show ?thesis
    using process_data_total [of "PyStr ''21''"] process_data_total [of "PyStr ''x''"]
      process_data_total [of PyNone] a b c by simp
qed

section \<open>Running the file as a script\<close>

text \<open>
  Claim C1. Run as a script, the module prints exactly the string
  \<open>Running script...\<close> and then the result of \<open>process_data("123")\<close>, the int 246.
  Nothing else is printed, and the output is the same whatever the command line and
  the environment variables are: the state is otherwise the one the module's top level
  leaves.
\<close>

theorem script_output:
  "run_module ''__main__'' s =
     (module_init s)\<lparr>stdout := stdout s @ [Print (PyStr ''Running script...''), Print (PyInt 246)]\<rparr>"
  by (simp add: run_module_def main_block_def process_data_123 py_print_def module_init_def)

theorem script_output_witness:
  "stdout (run_module ''__main__'' demo_state) =
     [Print (PyStr ''Running script...''), Print (PyInt 246)]"
  using script_output [of demo_state] by (simp add: demo_state_def)

section \<open>The methods of UserManager\<close>

text \<open>
  Against claim C2 as stated: \<open>get_user\<close> is a method other than \<open>process_user\<close>, and
  it does not return \<open>None\<close>.
\<close>

theorem get_user_not_noop:
  "fst (run demo_lib (Get_user (PyInt 7)) demo_state) \<noteq> Inr PyNone"
  by (simp add: get_user_def)

lemma process_user_result: "process_user user_id = Inr (get_user user_id)"
  by (simp add: process_user_def get_user_def dict_get_def send_email_def log_action_def update_cache_def)

lemma noop_calls:
  "method_of c = Some m \<Longrightarrow> m = M_send_email \<or> m = M_log_action \<or> m = M_update_cache \<Longrightarrow>
   run lib c s = (Inr PyNone, s)"
  by (cases c) (simp_all add: send_email_def log_action_def update_cache_def)

lemma process_user_not_noop:
  "\<not> (\<forall>c lib s. method_of c = Some M_process_user \<longrightarrow> run lib c s = (Inr PyNone, s))"
proof
  assume h: "\<forall>c lib s. method_of c = Some M_process_user \<longrightarrow> run lib c s = (Inr PyNone, s)"
  have "run demo_lib (Process_user PyNone) demo_state = (Inr PyNone, demo_state)"
    using h [rule_format, of "Process_user PyNone" demo_lib demo_state] by simp
  then show False by (simp add: process_user_result get_user_def)
qed

lemma get_user_call_returns_dict:
  "\<not> (\<forall>c lib s. method_of c = Some M_get_user \<longrightarrow> run lib c s = (Inr PyNone, s))"
proof
  assume h: "\<forall>c lib s. method_of c = Some M_get_user \<longrightarrow> run lib c s = (Inr PyNone, s)"
  have "run demo_lib (Get_user PyNone) demo_state = (Inr PyNone, demo_state)"
    using h [rule_format, of "Get_user PyNone" demo_lib demo_state] by simp
  then show False by (simp add: get_user_def)
qed

text \<open>
  Claim C2, amended. \<open>UserManager\<close> has exactly three methods that do nothing:
  \<open>send_email\<close>, \<open>log_action\<close> and \<open>update_cache\<close> return \<open>None\<close> for every input and
  leave the state as it is, and no other method does so for every input. \<open>get_user\<close>
  returns the dict with the keys \<open>id\<close> (its argument), \<open>age\<close> (25) and \<open>email\<close>.
\<close>

theorem three_noop_methods:
  "{m. \<forall>c lib s. method_of c = Some m \<longrightarrow> run lib c s = (Inr PyNone, s)}
     = {M_send_email, M_log_action, M_update_cache} \<and>
   (\<forall>lib user_id s. run lib (Get_user user_id) s =
      (Inr (PyDict [(PyStr ''id'', user_id), (PyStr ''age'', PyInt 25),
                    (PyStr ''email'', PyStr ''user@example.com'')]), s))"
proof -
  have "(\<forall>c lib s. method_of c = Some m \<longrightarrow> run lib c s = (Inr PyNone, s))
       \<longleftrightarrow> m \<in> {M_send_email, M_log_action, M_update_cache}" for m
  proof (cases m)
    case M_process_user
    then show ?thesis using process_user_not_noop by simp
  next
    case M_get_user
    then show ?thesis using get_user_call_returns_dict by simp
  next
    case M_send_email
    then show ?thesis using noop_calls [of _ M_send_email] by simp
  next
    case M_log_action
    then show ?thesis using noop_calls [of _ M_log_action] by simp
  next
    case M_update_cache
    then show ?thesis using noop_calls [of _ M_update_cache] by simp
  qed
  then have "{m. \<forall>c lib s. method_of c = Some m \<longrightarrow> run lib c s = (Inr PyNone, s)}
     = {M_send_email, M_log_action, M_update_cache}"
    by (intro set_eqI) simp
  then show ?thesis by (simp add: get_user_def)
qed

theorem three_noop_methods_witness:
  "method_of (Send_email (PyStr ''a'') (PyStr ''b'')) = Some M_send_email \<and>
   run demo_lib (Send_email (PyStr ''a'') (PyStr ''b'')) demo_state = (Inr PyNone, demo_state)"
proof -
  have "M_send_email \<in> {m. \<forall>c lib s. method_of c = Some m \<longrightarrow> run lib c s = (Inr PyNone, s)}"
    using three_noop_methods by simp
  then have "\<forall>c lib s. method_of c = Some M_send_email \<longrightarrow> run lib c s = (Inr PyNone, s)"
    by simp
  from this [rule_format, of "Send_email (PyStr ''a'') (PyStr ''b'')" demo_lib demo_state]
  show ?thesis by simp
qed

section \<open>The default list of add_item\<close>

lemma add_item_calls_results:
  "fst (add_item_calls items s) =
     map (\<lambda>k. list_objs s add_item_default @ take (Suc k) items) [0..<length items]"
proof (induction items arbitrary: s)
  case Nil
  show ?case by simp
next
  case (Cons item rest)
  define s1 where "s1 = snd (add_item item None s)"
  have a: "add_item item None s = (add_item_default, s1)"
    by (simp add: s1_def add_item_def)
  have l: "list_objs s1 add_item_default = list_objs s add_item_default @ [item]"
    by (simp add: s1_def add_item_def)
  obtain results s2 where r: "add_item_calls rest s1 = (results, s2)"
    by (cases "add_item_calls rest s1")
  have "results = map (\<lambda>k. list_objs s1 add_item_default @ take (Suc k) rest) [0..<length rest]"
    using Cons.IH [of s1] r by simp
  then show ?case
    using a l r by (simp add: map_upt_Suc del: upt_Suc)
qed

text \<open>
  Claim C8. The default list of \<open>add_item\<close> is shared across calls: in every run of
  calls that omit \<open>items\<close>, made after the module was loaded, the list returned by the
  \<open>k\<close>-th call (\<open>k \<ge> 1\<close>) has length \<open>k\<close> and holds, in order, the items of the first
  \<open>k\<close> calls.
\<close>

theorem add_item_default_shared:
  "1 \<le> k \<and> k \<le> length items \<longrightarrow>
     (let returned = fst (add_item_calls items (module_init s)) ! (k - 1)
      in length returned = k \<and> returned = take k items)"
proof
  assume k: "1 \<le> k \<and> k \<le> length items"
  then have "k - 1 < length items" and "Suc (k - 1) = k" by arith+
  then show "let returned = fst (add_item_calls items (module_init s)) ! (k - 1)
      in length returned = k \<and> returned = take k items"
    using k by (simp add: add_item_calls_results module_init_def Let_def del: upt_Suc)
qed

theorem add_item_default_shared_witness:
  "fst (add_item_calls [PyInt 1, PyInt 2, PyInt 3] (module_init demo_state)) ! 1 = [PyInt 1, PyInt 2]"
  using add_item_default_shared [of 2 "[PyInt 1, PyInt 2, PyInt 3]" demo_state]
  by (simp add: Let_def)

section \<open>Properties of load_json\<close>

lemmas file_defs = open_file_def new_handle_def file_read_def file_write_def file_close_def
  file_content_def

lemma load_json_missing:
  "files s filename = None \<Longrightarrow> fst (load_json loads filename s) = Inr (PyDict [])"
  by (simp add: load_json_def file_defs)

lemma load_json_directory:
  "files s filename = Some Directory \<Longrightarrow> fst (load_json loads filename s) = Inr (PyDict [])"
  by (simp add: load_json_def file_defs)

lemma load_json_unreadable:
  "files s filename = Some (File False w c) \<Longrightarrow> fst (load_json loads filename s) = Inr (PyDict [])"
  by (simp add: load_json_def file_defs)

lemma load_json_parsed:
  "files s filename = Some (File True w c) \<Longrightarrow> loads c = Inr v \<Longrightarrow>
   fst (load_json loads filename s) = Inr v"
  by (simp add: load_json_def json_load_def file_defs)

lemma load_json_invalid:
  "files s filename = Some (File True w c) \<Longrightarrow> loads c = Inl e \<Longrightarrow> is_Exception e \<Longrightarrow>
   fst (load_json loads filename s) = Inr (PyDict [])"
  by (simp add: load_json_def json_load_def file_defs)

text \<open>
  Claim C6. \<open>load_json\<close> never lets an exception out, given that the JSON decoder
  raises only exceptions that derive from \<open>Exception\<close>: for every file name it returns a
  value. If the file opens for reading and its text parses, the parsed value is
  returned; if the file is missing, unreadable or a directory, or its text is not
  valid JSON, the handler makes the function return the empty dict.
\<close>

theorem load_json_catches:
  assumes "\<forall>t e. loads t = Inl e \<longrightarrow> is_Exception e"
  shows "(\<exists>v. fst (load_json loads filename s) = Inr v) \<and>
    (\<forall>w c v. files s filename = Some (File True w c) \<and> loads c = Inr v \<longrightarrow>
       fst (load_json loads filename s) = Inr v) \<and>
    (files s filename = None \<longrightarrow> fst (load_json loads filename s) = Inr (PyDict [])) \<and>
    (\<forall>w c. files s filename = Some (File False w c) \<longrightarrow>
       fst (load_json loads filename s) = Inr (PyDict [])) \<and>
    (files s filename = Some Directory \<longrightarrow>
       fst (load_json loads filename s) = Inr (PyDict [])) \<and>
    (\<forall>w c e. files s filename = Some (File True w c) \<and> loads c = Inl e \<longrightarrow>
       fst (load_json loads filename s) = Inr (PyDict []))"
proof -
  have total: "\<exists>v. fst (load_json loads filename s) = Inr v"
  proof (cases "files s filename")
    case None
    then show ?thesis by (simp add: load_json_missing)
  next
    case (Some entry)
    show ?thesis
    proof (cases entry)
      case Directory
      with Some show ?thesis by (simp add: load_json_directory)
    next
      case (File r w c)
      show ?thesis
      proof (cases r)
        case False
        with Some File show ?thesis by (simp add: load_json_unreadable)
      next
        case True
        show ?thesis
        proof (cases "loads c")
          case (Inl e)
          with assms have "is_Exception e" by blast
          with Some File True Inl show ?thesis by (simp add: load_json_invalid)
        next
          case (Inr v)
          with Some File True show ?thesis by (simp add: load_json_parsed)
        qed
      qed
    qed
  qed
  have invalid: "\<forall>w c e. files s filename = Some (File True w c) \<and> loads c = Inl e \<longrightarrow>
       fst (load_json loads filename s) = Inr (PyDict [])"
    using assms load_json_invalid by blast
  show ?thesis
    using total invalid load_json_parsed load_json_missing load_json_unreadable
      load_json_directory by blast
qed

theorem load_json_catches_witness:
  "fst (load_json (json_loads demo_lib) ''a.json'' demo_state) = Inr (PyDict []) \<and>
   fst (load_json (json_loads demo_lib) ''bad.json'' demo_state) = Inr (PyDict []) \<and>
   fst (load_json (json_loads demo_lib) ''none.json'' demo_state) = Inr (PyDict []) \<and>
   fst (load_json (json_loads demo_lib) ''secret'' demo_state) = Inr (PyDict []) \<and>
   json_loads demo_lib ''{'' = Inl JSONDecodeError"
proof -
  have h: "\<forall>t e. json_loads demo_lib t = Inl e \<longrightarrow> is_Exception e"
    by (simp add: demo_lib_def)
  have f1: "files demo_state ''a.json'' = Some (File True True ''{}'')"
    and f2: "files demo_state ''bad.json'' = Some (File True True ''{'')"
    and f3: "files demo_state ''none.json'' = None"
    and f4: "files demo_state ''secret'' = Some (File False False ''x'')"
    by (simp_all add: demo_state_def)
  have l1: "json_loads demo_lib ''{}'' = Inr (PyDict [])"
    and l2: "json_loads demo_lib ''{'' = Inl JSONDecodeError"
    by (simp_all add: demo_lib_def)
  show ?thesis
    using load_json_catches [OF h, of "''a.json''" demo_state]
      load_json_catches [OF h, of "''bad.json''" demo_state]
      load_json_catches [OF h, of "''none.json''" demo_state]
      load_json_catches [OF h, of "''secret''" demo_state]
      f1 f2 f3 f4 l1 l2
    by auto
qed

section \<open>File objects stay within one call\<close>













section \<open>State shared between calls\<close>








text \<open>
  \<open>calculate\<close> returns what \<open>eval\<close> makes of its argument, and an expression can name
  the state kept in the process: here the default list of \<open>add_item\<close>, which the
  same call of \<open>calculate\<close> finds empty before a call of \<open>add_item\<close> and filled after.
\<close>

lemma calculate_sees_default_list:
  "fst (run demo_lib (Calculate ''add_item.__defaults__[0]'') (module_init demo_state))
     = Inr (PyList []) \<and>
   fst (run demo_lib (Calculate ''add_item.__defaults__[0]'')
          (snd (run demo_lib (Add_item (PyInt 1) None) (module_init demo_state))))
     = Inr (PyList [PyInt 1])"
  by (simp add: calculate_def demo_lib_def add_item_def module_init_def)

text \<open>
  The file system is an input of the functions that read files: what \<open>read_file\<close>
  returns for a name changes once \<open>write_config\<close> has written the file.
\<close>

lemma read_file_sees_write_config:
  "fst (run demo_lib (Read_file ''out.json'') demo_state) = Inl FileNotFoundError \<and>
   fst (run demo_lib (Read_file ''out.json'')
          (snd (run demo_lib (Write_config ''out.json'' (PyDict [])) demo_state)))
     = Inr (PyStr ''{}'')"
  by (simp add: read_file_def write_config_def file_defs demo_state_def demo_lib_def Let_def
        map_result_def)

text \<open>
  \<open>remove_negatives\<close> changes the list object it is given: handed the default list of
  \<open>add_item\<close> after \<open>add_item(-1)\<close>, it empties that list, and the next call
  \<open>add_item(2)\<close> returns \<open>[2]\<close>.
\<close>

lemma remove_negatives_in_place_single:
  "remove_negatives_in_place [PyInt (- 1)] 0 = (None, [])"
  by (simp add: remove_negatives_in_place.simps list_remove_def)

lemma remove_negatives_changes_default_list:
  "fst (run demo_lib (Add_item (PyInt 2) None)
          (snd (run demo_lib (Remove_negatives add_item_default)
             (snd (run demo_lib (Add_item (PyInt (- 1)) None) (module_init demo_state))))))
     = Inr (PyList [PyInt 2])"
  by (simp add: add_item_def module_init_def remove_negatives_in_place_single)



end
